theory Spec2Isabelle
  imports Complex_Main "HOL-Library.Sublist"
begin

section \<open>JavaScript values\<close>

text \<open>
  A JavaScript \<^verbatim>\<open>number\<close>. Every finite double is a real number and the code only
  compares numbers and multiplies small retry counts, so the finite ones are embedded in
  \<^typ>\<open>real\<close> (which identifies \<^verbatim>\<open>+0\<close> and \<^verbatim>\<open>-0\<close>, as \<^verbatim>\<open>===\<close>, \<^verbatim>\<open><\<close> and the key
  comparison of \<^verbatim>\<open>Map\<close> do). \<^verbatim>\<open>NaN\<close> and the infinities are kept apart, since
  \<^verbatim>\<open>Number(undefined)\<close> and \<^verbatim>\<open>Number.POSITIVE_INFINITY\<close> occur in the code.
\<close>

datatype number = Fin real | NaN | PosInfinity | NegInfinity

text \<open>The operator \<^verbatim>\<open><\<close> on numbers: every comparison with \<^verbatim>\<open>NaN\<close> is false.\<close>

fun js_lt :: "number \<Rightarrow> number \<Rightarrow> bool" where
  "js_lt NaN _ = False"
| "js_lt _ NaN = False"
| "js_lt (Fin a) (Fin b) = (a < b)"
| "js_lt (Fin _) PosInfinity = True"
| "js_lt NegInfinity (Fin _) = True"
| "js_lt NegInfinity PosInfinity = True"
| "js_lt _ _ = False"

text \<open>The operator \<^verbatim>\<open>>\<close>.\<close>

definition js_gt :: "number \<Rightarrow> number \<Rightarrow> bool" where
  "js_gt a b = js_lt b a"

text \<open>The operator \<^verbatim>\<open><=\<close>, used to say that a sequence of heights does not decrease.\<close>

definition js_le :: "number \<Rightarrow> number \<Rightarrow> bool" where
  "js_le a b = (js_lt a b \<or> (a \<noteq> NaN \<and> a = b))"

text \<open>Truthiness of a number (\<^verbatim>\<open>0\<close> and \<^verbatim>\<open>NaN\<close> are falsy) and of a string (the empty one is).\<close>

definition truthy_number :: "number \<Rightarrow> bool" where
  "truthy_number n = (n \<noteq> Fin 0 \<and> n \<noteq> NaN)"

fun truthy_string :: "string option \<Rightarrow> bool" where
  "truthy_string None = False"
| "truthy_string (Some s) = (s \<noteq> [])"

text \<open>
  \<^verbatim>\<open>type value = string | number\<close>; a row is \<^verbatim>\<open>[id: value, values: value | value[]]\<close>
  and a data set is \<^verbatim>\<open>Map<DataRow['0'], DataRow['1']>\<close>. Structural equality of
  \<open>jsvalue\<close> is the key comparison of \<^verbatim>\<open>Map\<close> (SameValueZero). The iteration order of a
  \<^verbatim>\<open>Map\<close> is not modelled: a data set is the mapping from ids to values.
\<close>

datatype jsvalue = Str string | Num number

datatype datum = One jsvalue | Many "jsvalue list"

type_synonym DataRow = "jsvalue \<times> datum"

type_synonym DataSet = "jsvalue \<rightharpoonup> datum"

text \<open>
  The type \<^verbatim>\<open>0\<close> of the option \<^verbatim>\<open>mapEntryRemovalValue\<close>, and the operator \<^verbatim>\<open>===\<close>
  between that option (\<open>None\<close> is \<^verbatim>\<open>undefined\<close>) and the data of a row. A row's data is
  never \<^verbatim>\<open>undefined\<close>, and neither a string nor an array is identical to \<^verbatim>\<open>0\<close>.
\<close>

datatype zero = Zero

fun strict_equals :: "zero option \<Rightarrow> datum \<Rightarrow> bool" where
  "strict_equals (Some Zero) (One (Num n)) = (n = Fin 0)"
| "strict_equals _ _ = False"

text \<open>An \<^verbatim>\<open>Error\<close> with its message and its \<^verbatim>\<open>cause\<close>.\<close>

datatype error = Error string "error option"

text \<open>What a call of a callback does to the state it runs on: it returns or it throws.\<close>

datatype 's outcome = Returns 's | Throws error 's

section \<open>The accumulation functions\<close>

text \<open>
  \<^verbatim>\<open>Map\<close> objects live in a store and are passed by reference, so that the difference
  between \<^verbatim>\<open>accumulateUpdates\<close> (which copies) and \<^verbatim>\<open>accumulateUpdatesUsingMutation\<close>
  (which writes into the object it is given) is visible. A reference is an index of the
  store; \<^verbatim>\<open>new Map(...)\<close> appends an object. References of the program are always
  valid, that is, below the length of the store.
\<close>

type_synonym ref = nat

type_synonym heap = "DataSet list"

definition Map_new :: "heap \<Rightarrow> DataSet \<Rightarrow> heap \<times> ref" where
  "Map_new h entries = (h @ [entries], length h)"

definition Map_set :: "heap \<Rightarrow> ref \<Rightarrow> jsvalue \<Rightarrow> datum \<Rightarrow> heap" where
  "Map_set h r k v = h[r := (h ! r)(k \<mapsto> v)]"

definition Map_delete :: "heap \<Rightarrow> ref \<Rightarrow> jsvalue \<Rightarrow> heap" where
  "Map_delete h r k = h[r := (h ! r)(k := None)]"

text \<open>\<^verbatim>\<open>interface AccumulatorOptions { mapEntryRemovalValue?: 0 }\<close>\<close>

record AccumulatorOptions =
  mapEntryRemovalValue :: "zero option"

text \<open>
  \<^verbatim>\<open>
  for (const [id, data] of dataUpdates) {
    if (opts.mapEntryRemovalValue === data) { map.delete(id); } else { map.set(id, data); }
  }
  return map;
  \<close>
\<close>

fun accumulateUpdatesUsingMutation ::
  "heap \<Rightarrow> ref \<Rightarrow> DataRow list \<Rightarrow> AccumulatorOptions \<Rightarrow> heap \<times> ref" where
  "accumulateUpdatesUsingMutation h m [] opts = (h, m)"
| "accumulateUpdatesUsingMutation h m ((id', d) # dataUpdates) opts =
     accumulateUpdatesUsingMutation
       (if strict_equals (mapEntryRemovalValue opts) d then Map_delete h m id'
        else Map_set h m id' d)
       m dataUpdates opts"

text \<open>
  \<^verbatim>\<open>
  const newMap = new Map(currentMap);
  return accumulateUpdatesUsingMutation(newMap, dataUpdates, opts);
  \<close>
\<close>

definition accumulateUpdates ::
  "heap \<Rightarrow> ref \<Rightarrow> DataRow list \<Rightarrow> AccumulatorOptions \<Rightarrow> heap \<times> ref" where
  "accumulateUpdates h currentMap dataUpdates opts =
     (case Map_new h (h ! currentMap) of
        (h', newMap) \<Rightarrow> accumulateUpdatesUsingMutation h' newMap dataUpdates opts)"

text \<open>
  The contents that the loop leaves in the map it works on, as a function of the contents
  it starts from (used to state results; \<open>accumulate_contents\<close> below relates it to the
  loop).
\<close>

fun merged :: "zero option \<Rightarrow> DataSet \<Rightarrow> DataRow list \<Rightarrow> DataSet" where
  "merged sentinel s [] = s"
| "merged sentinel s ((id', d) # dataUpdates) =
     merged sentinel (if strict_equals sentinel d then s(id' := None) else s(id' \<mapsto> d)) dataUpdates"

section \<open>The stream\<close>

text \<open>
  The page of a pull response, \<^verbatim>\<open>IndexerPage<DataRow>\<close>. An optional field that is
  absent is \<open>None\<close>; \<^verbatim>\<open>next_key\<close> is \<open>None\<close> when absent or \<^verbatim>\<open>null\<close>. The field
  \<^verbatim>\<open>shape\<close> is never read.
\<close>

record BlockRange =
  from_height :: number
  to_height :: number

record Pagination =
  next_key :: "string option"

record 'row IndexerPage =
  data :: "'row list option"
  pagination :: "Pagination option"
  block_range :: "BlockRange option"

text \<open>
  The query parameters of the endpoint URL that the code reads or writes.
  \<open>block_range_to_height\<close> holds \<^verbatim>\<open>Number(...)\<close> of the parameter when it is present, and
  \<open>block_range_from_height\<close> the number whose \<^verbatim>\<open>toFixed()\<close> the code writes.
\<close>

record URL =
  pagination_before :: "string option"
  pagination_key :: "string option"
  block_range_from_height :: "number option"
  block_range_to_height :: "number option"

text \<open>
  What the platform delivers to a stream, one item per suspension point of the code.
  \<^item> \<open>SseUpdate d n\<close>: an \<^verbatim>\<open>update\<close> event of the event source; \<open>d\<close> tells what
    \<^verbatim>\<open>e.data\<close> and \<^verbatim>\<open>JSON.parse(e.data)\<close> are (\<open>NoData\<close>: \<^verbatim>\<open>e.data\<close> is falsy;
    \<open>Unparsable\<close>: \<^verbatim>\<open>JSON.parse\<close> throws; \<open>Falsy\<close>: it returns a falsy value; \<open>Rows\<close>: it
    returns an array), and \<open>n\<close> is \<^verbatim>\<open>Number(e.lastEventId.split(':').at(0))\<close>.
  \<^item> \<open>SseEnd\<close>, \<open>SseError\<close>: an \<^verbatim>\<open>end\<close> or \<^verbatim>\<open>error\<close> event of the event source.
  \<^item> \<open>FetchResponse status page\<close>: the pending \<^verbatim>\<open>fetch\<close> resolves with this status and
    its body (read with \<^verbatim>\<open>response.json()\<close> when the status is 200) is \<open>page\<close>.
  \<^item> \<open>FetchFailure e\<close>: the pending \<^verbatim>\<open>fetch\<close>, or the reading of its body, rejects.
  \<^item> \<open>Unsubscribe\<close>: somebody calls \<^verbatim>\<open>unsubscribe()\<close> (or aborts the shared controller).
\<close>

datatype 'row sse_data = NoData | Unparsable | Falsy | Rows "'row list"

datatype 'row event =
    SseUpdate "'row sse_data" number
  | SseEnd
  | SseError
  | FetchResponse nat "'row IndexerPage"
  | FetchFailure error
  | Unsubscribe

text \<open>What the stream asks of the platform: a request, or a timer of so many milliseconds.\<close>

datatype effect = Fetch URL | SetTimeout number

text \<open>
  \<^verbatim>\<open>interface StreamCallbacks\<close>: each callback is optional and runs on the state \<open>'s\<close> of
  whoever supplied it.
\<close>

record ('row, 's) StreamCallbacks =
  onUpdate :: "('row list \<Rightarrow> number \<Rightarrow> 's \<Rightarrow> 's outcome) option"
  onCompleted :: "('s \<Rightarrow> 's outcome) option"
  onError :: "(error \<Rightarrow> 's \<Rightarrow> 's outcome) option"

record AbortController =
  aborted :: bool

text \<open>\<^verbatim>\<open>interface StreamOptions\<close>; \<open>disableSSE\<close> is \<open>False\<close> when absent.\<close>

record StreamOptions =
  abortController :: "AbortController option"
  disableSSE :: bool
  backoffFunc :: "(nat \<Rightarrow> number) option"

text \<open>The optional call \<^verbatim>\<open>f?.(...)\<close>, and the state that a call leaves behind.\<close>

definition optional_call :: "('s \<Rightarrow> 's outcome) option \<Rightarrow> 's \<Rightarrow> 's outcome" where
  "optional_call f s = (case f of None \<Rightarrow> Returns s | Some g \<Rightarrow> g s)"

fun state_of :: "'s outcome \<Rightarrow> 's" where
  "state_of (Returns s) = s"
| "state_of (Throws e s) = s"

text \<open>
  The local variables of \<^verbatim>\<open>subscribeToLongPolling\<close> while it is suspended at
  \<^verbatim>\<open>await fetch(...)\<close>.
\<close>

record locals =
  knownHeight :: number
  toHeight :: number
  retries :: nat
  nextKey :: "string option"

text \<open>
  An \<^verbatim>\<open>IndexerStream\<close> object together with what hangs on it:
  \<^item> \<open>signal_aborted\<close>: \<^verbatim>\<open>this.abortController.signal.aborted\<close>;
  \<^item> \<open>this_backoffFunc\<close>: the field \<^verbatim>\<open>backoffFunc\<close>; \<open>url\<close>: the \<^verbatim>\<open>URL\<close> object;
  \<^item> \<open>listening\<close>: the three listeners of the event source are registered;
  \<^item> \<open>settled\<close>: the promise of \<^verbatim>\<open>subscribeToSSE\<close> has been resolved or rejected;
  \<^item> \<open>polling\<close>: the long-polling loop is awaiting a response, with these locals;
  \<^item> \<open>passes\<close>: how many times the body of the outer \<^verbatim>\<open>do\<close> has been entered (a counter
    added for the statement of results, the code has none);
  \<^item> \<open>effects\<close>: the requests and timers so far;
  \<^item> \<open>world\<close>: the state the callbacks run on.
\<close>

record 's IndexerStream =
  signal_aborted :: bool
  this_backoffFunc :: "nat \<Rightarrow> number"
  url :: URL
  listening :: bool
  settled :: bool
  polling :: "locals option"
  passes :: nat
  effects :: "effect list"
  world :: 's

definition maxRetries :: nat where
  "maxRetries = 5"

text \<open>
  The promise of \<^verbatim>\<open>subscribeToLongPolling\<close> is rejected with \<open>e\<close> as the cause: the last
  \<^verbatim>\<open>catch\<close> of the constructor calls \<^verbatim>\<open>this.unsubscribe()\<close> (which aborts the signal, and
  with it removes the listeners) and then \<^verbatim>\<open>callbacks.onError?.(e)\<close>.
\<close>

definition long_polling_rejected ::
  "('row, 's) StreamCallbacks \<Rightarrow> error \<Rightarrow> 's IndexerStream \<Rightarrow> 's IndexerStream" where
  "long_polling_rejected cb e st =
     st\<lparr>polling := None, signal_aborted := True, listening := False,
        world := state_of (optional_call
                   (map_option (\<lambda>f. f (Error ''Long-Polling Error'' (Some e))) (onError cb))
                   (world st))\<rparr>"

text \<open>
  The head of the inner loop body, up to \<^verbatim>\<open>await fetch(url.toString(), fetchOptions)\<close>.
  A \<^verbatim>\<open>fetch\<close> on an aborted signal rejects at once.
\<close>

definition fetch_next ::
  "('row, 's) StreamCallbacks \<Rightarrow> locals \<Rightarrow> 's IndexerStream \<Rightarrow> 's IndexerStream" where
  "fetch_next cb L st =
     (let u1 = (if truthy_number (knownHeight L)
                then (url st)\<lparr>block_range_from_height := Some (knownHeight L)\<rparr> else url st);
          u2 = (if truthy_string (nextKey L) then u1\<lparr>pagination_key := nextKey L\<rparr> else u1);
          st' = st\<lparr>url := u2, effects := effects st @ [Fetch u2]\<rparr>
      in if signal_aborted st' then long_polling_rejected cb (Error ''AbortError'' None) st'
         else st'\<lparr>polling := Some L\<rparr>)"

text \<open>
  The two loop conditions, \<^verbatim>\<open>while (nextKey)\<close> and \<^verbatim>\<open>while (knownHeight < toHeight)\<close>, and
  what follows the loops: \<^verbatim>\<open>callbacks.onCompleted?.(); resolve();\<close>. An exception of the
  callback is caught by the \<^verbatim>\<open>try\<close> around the loops.
\<close>

definition loop_conditions ::
  "('row, 's) StreamCallbacks \<Rightarrow> locals \<Rightarrow> 's IndexerStream \<Rightarrow> 's IndexerStream" where
  "loop_conditions cb L st =
     (if truthy_string (nextKey L) then fetch_next cb L st
      else if js_lt (knownHeight L) (toHeight L)
      then fetch_next cb (L\<lparr>retries := 0, nextKey := None\<rparr>) (st\<lparr>passes := passes st + 1\<rparr>)
      else (case optional_call (onCompleted cb) (world st) of
              Returns w \<Rightarrow> st\<lparr>polling := None, world := w\<rparr>
            | Throws e w \<Rightarrow> long_polling_rejected cb e (st\<lparr>world := w\<rparr>)))"

text \<open>
  The rest of the inner loop body, from the response on. In the retry branch the
  \<^verbatim>\<open>continue\<close> of a \<^verbatim>\<open>do ... while\<close> goes to the loop condition, as the end of the body
  does.
\<close>

definition fetch_resolved ::
  "('row, 's) StreamCallbacks \<Rightarrow> nat \<Rightarrow> 'row IndexerPage \<Rightarrow> locals \<Rightarrow> 's IndexerStream
     \<Rightarrow> 's IndexerStream" where
  "fetch_resolved cb status page L st =
     (if status = 200 then
        (let d = (case data page of None \<Rightarrow> [] | Some rows \<Rightarrow> rows);
             p = (case pagination page of None \<Rightarrow> \<lparr>next_key = None\<rparr> | Some p \<Rightarrow> p);
             range = block_range page;
             height = (case range of None \<Rightarrow> NaN | Some r \<Rightarrow> to_height r)
         in case optional_call (map_option (\<lambda>f. f d height) (onUpdate cb)) (world st) of
              Throws e w \<Rightarrow> long_polling_rejected cb e (st\<lparr>world := w\<rparr>)
            | Returns w \<Rightarrow>
                loop_conditions cb
                  (L\<lparr>knownHeight :=
                       (case range of
                          None \<Rightarrow> knownHeight L
                        | Some r \<Rightarrow> if js_gt (to_height r) (knownHeight L) then to_height r
                                    else knownHeight L),
                     nextKey := (if truthy_string (next_key p) then next_key p else None)\<rparr>)
                  (st\<lparr>world := w\<rparr>))
      else if retries L < maxRetries then
        loop_conditions cb (L\<lparr>retries := retries L + 1\<rparr>)
          (st\<lparr>effects := effects st @ [SetTimeout (this_backoffFunc st (retries L))]\<rparr>)
      else long_polling_rejected cb (Error ''Could not fetch data after 5 times.'' None) st)"

text \<open>
  \<^verbatim>\<open>subscribeToLongPolling\<close> up to its first \<^verbatim>\<open>await\<close>. \<^verbatim>\<open>Number(null)\<close> is \<^verbatim>\<open>0\<close>, so an
  absent \<^verbatim>\<open>block_range.to_height\<close> gives \<^verbatim>\<open>Number.POSITIVE_INFINITY\<close>.
\<close>

definition subscribeToLongPolling ::
  "('row, 's) StreamCallbacks \<Rightarrow> 's IndexerStream \<Rightarrow> 's IndexerStream" where
  "subscribeToLongPolling cb st =
     fetch_next cb
       \<lparr>knownHeight = Fin 0,
        toHeight =
          (if truthy_string (pagination_before (url st)) then Fin 0
           else (let n = (case block_range_to_height (url st) of None \<Rightarrow> Fin 0 | Some n \<Rightarrow> n)
                 in if truthy_number n then n else PosInfinity)),
        retries = 0,
        nextKey = None\<rparr>
       (st\<lparr>passes := passes st + 1\<rparr>)"

text \<open>
  Settling the promise of \<^verbatim>\<open>subscribeToSSE\<close>; only the first \<^verbatim>\<open>resolve\<close> or \<^verbatim>\<open>reject\<close>
  counts. A rejection runs the fallback of the constructor,
  \<^verbatim>\<open>.catch(() => this.subscribeToLongPolling(url, callbacks))\<close>.
\<close>

definition sse_resolve :: "'s IndexerStream \<Rightarrow> 's IndexerStream" where
  "sse_resolve st = st\<lparr>settled := True\<rparr>"

definition sse_reject ::
  "('row, 's) StreamCallbacks \<Rightarrow> 's IndexerStream \<Rightarrow> 's IndexerStream" where
  "sse_reject cb st =
     (if settled st then st else subscribeToLongPolling cb (st\<lparr>settled := True\<rparr>))"

text \<open>
  \<^verbatim>\<open>subscribeToSSE\<close> up to the registration of the listeners. \<open>eventSource_throws\<close> says
  that \<^verbatim>\<open>new EventSource(url)\<close> throws. Listeners registered with an aborted signal are not
  added.
\<close>

definition subscribeToSSE ::
  "('row, 's) StreamCallbacks \<Rightarrow> bool \<Rightarrow> 's IndexerStream \<Rightarrow> 's IndexerStream" where
  "subscribeToSSE cb eventSource_throws st =
     (if eventSource_throws then sse_reject cb st
      else st\<lparr>listening := \<not> signal_aborted st\<rparr>)"

text \<open>
  The three listeners. An exception of a callback ends the listener where it is thrown.
  \<^verbatim>\<open>eventSource.CLOSED\<close> is the constant 2, so the \<^verbatim>\<open>error\<close> listener always rejects.
\<close>

definition update_listener ::
  "('row, 's) StreamCallbacks \<Rightarrow> 'row sse_data \<Rightarrow> number \<Rightarrow> 's IndexerStream
     \<Rightarrow> 's IndexerStream" where
  "update_listener cb d heightOfData st =
     (case d of
        Unparsable \<Rightarrow> sse_reject cb st
      | Rows dataUpdates \<Rightarrow>
          st\<lparr>world := state_of (optional_call
                         (map_option (\<lambda>f. f dataUpdates heightOfData) (onUpdate cb))
                         (world st))\<rparr>
      | _ \<Rightarrow> st)"

definition end_listener ::
  "('row, 's) StreamCallbacks \<Rightarrow> 's IndexerStream \<Rightarrow> 's IndexerStream" where
  "end_listener cb st =
     (case optional_call (onCompleted cb) (world st) of
        Returns w \<Rightarrow> sse_resolve (st\<lparr>world := w\<rparr>)
      | Throws e w \<Rightarrow> st\<lparr>world := w\<rparr>)"

definition error_listener ::
  "('row, 's) StreamCallbacks \<Rightarrow> 's IndexerStream \<Rightarrow> 's IndexerStream" where
  "error_listener cb st =
     (case optional_call
             (map_option (\<lambda>f. f (Error ''SSE error'' (Some (Error ''error'' None))))
                (onError cb))
             (world st) of
        Returns w \<Rightarrow> sse_reject cb (st\<lparr>world := w\<rparr>)
      | Throws e w \<Rightarrow> st\<lparr>world := w\<rparr>)"

text \<open>
  \<^verbatim>\<open>unsubscribe() { this.abortController.abort(); }\<close> with what the abort sets off: the
  event source is closed and its listeners are removed, and a pending \<^verbatim>\<open>fetch\<close> rejects
  with an \<^verbatim>\<open>AbortError\<close>, which the \<^verbatim>\<open>try\<close> around the loops catches.
\<close>

definition unsubscribe ::
  "('row, 's) StreamCallbacks \<Rightarrow> 's IndexerStream \<Rightarrow> 's IndexerStream" where
  "unsubscribe cb st =
     (case polling st of
        None \<Rightarrow> st\<lparr>signal_aborted := True, listening := False\<rparr>
      | Some L \<Rightarrow>
          long_polling_rejected cb (Error ''AbortError'' None)
            (st\<lparr>signal_aborted := True, listening := False\<rparr>))"

text \<open>The constructor of \<^verbatim>\<open>IndexerStream\<close>.\<close>

definition IndexerStream ::
  "('row, 's) StreamCallbacks \<Rightarrow> StreamOptions \<Rightarrow> URL \<Rightarrow> bool \<Rightarrow> 's \<Rightarrow> 's IndexerStream" where
  "IndexerStream cb opts endpoint eventSource_throws w =
     (let st = \<lparr>signal_aborted = (case abortController opts of None \<Rightarrow> False | Some c \<Rightarrow> aborted c),
                this_backoffFunc =
                  (case backoffFunc opts of
                     None \<Rightarrow> (\<lambda>retries. Fin (real retries * 1000))
                   | Some f \<Rightarrow> f),
                url = endpoint, listening = False, settled = False, polling = None,
                passes = 0, effects = [], world = w\<rparr>
      in if \<not> disableSSE opts then subscribeToSSE cb eventSource_throws st
         else subscribeToLongPolling cb st)"

text \<open>One delivery of the platform, and a sequence of them.\<close>

fun step ::
  "('row, 's) StreamCallbacks \<Rightarrow> 's IndexerStream \<Rightarrow> 'row event \<Rightarrow> 's IndexerStream" where
  "step cb st (SseUpdate d n) = (if listening st then update_listener cb d n st else st)"
| "step cb st SseEnd = (if listening st then end_listener cb st else st)"
| "step cb st SseError = (if listening st then error_listener cb st else st)"
| "step cb st (FetchResponse status page) =
     (case polling st of None \<Rightarrow> st | Some L \<Rightarrow> fetch_resolved cb status page L st)"
| "step cb st (FetchFailure e) =
     (case polling st of None \<Rightarrow> st | Some L \<Rightarrow> long_polling_rejected cb e st)"
| "step cb st Unsubscribe = unsubscribe cb st"

definition run ::
  "('row, 's) StreamCallbacks \<Rightarrow> 's IndexerStream \<Rightarrow> 'row event list \<Rightarrow> 's IndexerStream" where
  "run cb st evs = foldl (step cb) st evs"

text \<open>A consumer that records the calls of its callbacks, in order.\<close>

datatype 'row notice = Update "'row list" number | Complete | Fail error

definition recorder :: "('row, 'row notice list) StreamCallbacks" where
  "recorder =
     \<lparr>onUpdate = Some (\<lambda>dataUpdates height trace. Returns (trace @ [Update dataUpdates height])),
      onCompleted = Some (\<lambda>trace. Returns (trace @ [Complete])),
      onError = Some (\<lambda>e trace. Returns (trace @ [Fail e]))\<rparr>"

fun update_heights :: "'row notice list \<Rightarrow> number list" where
  "update_heights [] = []"
| "update_heights (Update dataUpdates height # trace) = height # update_heights trace"
| "update_heights (_ # trace) = update_heights trace"

section \<open>The accumulating streams\<close>

text \<open>
  The fields that \<^verbatim>\<open>IndexerStreamAccumulateSingleDataSet\<close> and
  \<^verbatim>\<open>IndexerStreamAccumulateDualDataSet\<close> have in common, with the store of \<^verbatim>\<open>Map\<close>
  objects and the state \<open>client\<close> of the consumer whose callbacks they call; then the two
  classes. The field \<^verbatim>\<open>accumulateUpdates\<close> of an instance, which is the function
  \<^verbatim>\<open>accumulateUpdates\<close> unless it is replaced (as \<^verbatim>\<open>fetchDataFromIndexer\<close> does), is the
  argument \<open>acc\<close> of the definitions below.
\<close>

record 'c Synchronizer =
  store :: heap
  dataHeight :: number
  client :: 'c

record 'c SingleDataSet = "'c Synchronizer" +
  dataSet :: ref

record 'c DualDataSet = "'c Synchronizer" +
  dataSets :: "ref list"

type_synonym accumulate = "heap \<Rightarrow> ref \<Rightarrow> DataRow list \<Rightarrow> AccumulatorOptions \<Rightarrow> heap \<times> ref"

text \<open>
  \<^verbatim>\<open>StreamSingleDataSetCallbacks\<close> (\<open>'u\<close> is \<^verbatim>\<open>DataRow[]\<close>, \<open>'d\<close> one reference) and
  \<^verbatim>\<open>StreamDualDataSetCallbacks\<close> (\<open>'u\<close> is \<^verbatim>\<open>DataRow[][]\<close>, \<open>'d\<close> an array of references).
  A callback that is handed a \<^verbatim>\<open>Map\<close> gets the store to read it from.
\<close>

record ('u, 'd, 'c) StreamDataSetCallbacks =
  onUpdate :: "('u \<Rightarrow> number \<Rightarrow> 'c \<Rightarrow> 'c outcome) option"
  onCompleted :: "(heap \<Rightarrow> 'd \<Rightarrow> number \<Rightarrow> 'c \<Rightarrow> 'c outcome) option"
  onAccumulated :: "(heap \<Rightarrow> 'd \<Rightarrow> number \<Rightarrow> 'c \<Rightarrow> 'c outcome) option"
  onError :: "(error \<Rightarrow> 'c \<Rightarrow> 'c outcome) option"

text \<open>An optional call of a callback of the consumer, from inside an accumulating stream.\<close>

definition call_client ::
  "('c \<Rightarrow> 'c outcome) option \<Rightarrow> ('c, 'z) Synchronizer_scheme
     \<Rightarrow> ('c, 'z) Synchronizer_scheme outcome" where
  "call_client f st =
     (case optional_call f (client st) of
        Returns c \<Rightarrow> Returns (st\<lparr>client := c\<rparr>)
      | Throws e c \<Rightarrow> Throws e (st\<lparr>client := c\<rparr>))"

text \<open>
  \<^verbatim>\<open>IndexerStreamAccumulateSingleDataSet\<close>: the method \<^verbatim>\<open>accumulateDataSet\<close>, the
  \<^verbatim>\<open>onUpdate\<close> handed to the stream, the three callbacks, and the constructor, which passes
  on \<^verbatim>\<open>abortController\<close> and \<^verbatim>\<open>disableSSE\<close> and nothing else.
\<close>

definition single_accumulateDataSet ::
  "accumulate \<Rightarrow> DataRow list \<Rightarrow> AccumulatorOptions \<Rightarrow> 'c SingleDataSet \<Rightarrow> heap \<times> ref" where
  "single_accumulateDataSet acc dataUpdates opts st =
     acc (store st) (dataSet st) dataUpdates opts"

definition single_onUpdate ::
  "accumulate \<Rightarrow> (DataRow list, ref, 'c) StreamDataSetCallbacks \<Rightarrow> AccumulatorOptions
     \<Rightarrow> DataRow list \<Rightarrow> number \<Rightarrow> 'c SingleDataSet \<Rightarrow> 'c SingleDataSet outcome" where
  "single_onUpdate acc callbacks opts dataUpdates height st =
     (case call_client (map_option (\<lambda>f. f dataUpdates height)
                          (StreamDataSetCallbacks.onUpdate callbacks)) st of
        Throws e st1 \<Rightarrow> Throws e st1
      | Returns st1 \<Rightarrow>
          (let st2 = st1\<lparr>dataHeight := height\<rparr>
           in case single_accumulateDataSet acc dataUpdates
                     \<lparr>mapEntryRemovalValue = mapEntryRemovalValue opts\<rparr> st2 of
                (h, m) \<Rightarrow>
                  call_client
                    (map_option (\<lambda>f. f h m (dataHeight st2)) (onAccumulated callbacks))
                    (st2\<lparr>store := h, dataSet := m\<rparr>)))"

definition single_callbacks ::
  "accumulate \<Rightarrow> (DataRow list, ref, 'c) StreamDataSetCallbacks \<Rightarrow> AccumulatorOptions
     \<Rightarrow> (DataRow, 'c SingleDataSet) StreamCallbacks" where
  "single_callbacks acc callbacks opts =
     \<lparr>StreamCallbacks.onUpdate = Some (single_onUpdate acc callbacks opts),
      StreamCallbacks.onCompleted =
        Some (\<lambda>st. call_client
                      (map_option (\<lambda>f. f (store st) (dataSet st) (dataHeight st))
                         (StreamDataSetCallbacks.onCompleted callbacks)) st),
      StreamCallbacks.onError =
        map_option (\<lambda>f e. call_client (Some (f e))) (StreamDataSetCallbacks.onError callbacks)\<rparr>"

definition IndexerStreamAccumulateSingleDataSet ::
  "accumulate \<Rightarrow> (DataRow list, ref, 'c) StreamDataSetCallbacks \<Rightarrow> AccumulatorOptions
     \<Rightarrow> StreamOptions \<Rightarrow> URL \<Rightarrow> bool \<Rightarrow> 'c \<Rightarrow> 'c SingleDataSet IndexerStream" where
  "IndexerStreamAccumulateSingleDataSet acc callbacks aopts sopts endpoint eventSource_throws c =
     IndexerStream (single_callbacks acc callbacks aopts)
       \<lparr>abortController = abortController sopts, disableSSE = disableSSE sopts,
        backoffFunc = None\<rparr>
       endpoint eventSource_throws
       \<lparr>store = [Map.empty], dataHeight = Fin 0, client = c, dataSet = 0\<rparr>"

text \<open>
  \<^verbatim>\<open>IndexerStreamAccumulateDualDataSet\<close>. Its \<^verbatim>\<open>accumulateDataSet\<close> reads
  \<^verbatim>\<open>dataUpdates[0]\<close> and \<^verbatim>\<open>dataUpdates[1]\<close>; iterating over one that is \<^verbatim>\<open>undefined\<close> throws
  a \<^verbatim>\<open>TypeError\<close>, the first merge being done by then when it is the second that is
  missing. (The copy that the copying merge makes before it throws is referenced by nothing
  and is left out of the store.)
\<close>

definition TypeError :: error where
  "TypeError = Error ''TypeError: undefined is not iterable'' None"

definition dual_accumulateDataSet ::
  "accumulate \<Rightarrow> DataRow list list \<Rightarrow> AccumulatorOptions \<Rightarrow> 'c DualDataSet
     \<Rightarrow> 'c DualDataSet outcome" where
  "dual_accumulateDataSet acc dataUpdates opts st =
     (case dataUpdates of
        [] \<Rightarrow> Throws TypeError st
      | [u0] \<Rightarrow>
          (case acc (store st) (dataSets st ! 0) u0 opts of
             (h, m0) \<Rightarrow> Throws TypeError (st\<lparr>store := h\<rparr>))
      | u0 # u1 # _ \<Rightarrow>
          (case acc (store st) (dataSets st ! 0) u0 opts of
             (h, m0) \<Rightarrow>
               (case acc h (dataSets st ! 1) u1 opts of
                  (h', m1) \<Rightarrow> Returns (st\<lparr>store := h', dataSets := [m0, m1]\<rparr>))))"

definition dual_onUpdate ::
  "accumulate \<Rightarrow> (DataRow list list, ref list, 'c) StreamDataSetCallbacks \<Rightarrow> AccumulatorOptions
     \<Rightarrow> DataRow list list \<Rightarrow> number \<Rightarrow> 'c DualDataSet \<Rightarrow> 'c DualDataSet outcome" where
  "dual_onUpdate acc callbacks opts dataUpdates height st =
     (case call_client (map_option (\<lambda>f. f dataUpdates height)
                          (StreamDataSetCallbacks.onUpdate callbacks)) st of
        Throws e st1 \<Rightarrow> Throws e st1
      | Returns st1 \<Rightarrow>
          (case dual_accumulateDataSet acc dataUpdates
                  \<lparr>mapEntryRemovalValue = mapEntryRemovalValue opts\<rparr>
                  (st1\<lparr>dataHeight := height\<rparr>) of
             Throws e st2 \<Rightarrow> Throws e st2
           | Returns st2 \<Rightarrow>
               call_client
                 (map_option (\<lambda>f. f (store st2) (dataSets st2) (dataHeight st2))
                    (onAccumulated callbacks))
                 st2))"

definition dual_callbacks ::
  "accumulate \<Rightarrow> (DataRow list list, ref list, 'c) StreamDataSetCallbacks \<Rightarrow> AccumulatorOptions
     \<Rightarrow> (DataRow list, 'c DualDataSet) StreamCallbacks" where
  "dual_callbacks acc callbacks opts =
     \<lparr>StreamCallbacks.onUpdate = Some (dual_onUpdate acc callbacks opts),
      StreamCallbacks.onCompleted =
        Some (\<lambda>st. call_client
                      (map_option (\<lambda>f. f (store st) (dataSets st) (dataHeight st))
                         (StreamDataSetCallbacks.onCompleted callbacks)) st),
      StreamCallbacks.onError =
        map_option (\<lambda>f e. call_client (Some (f e))) (StreamDataSetCallbacks.onError callbacks)\<rparr>"

definition IndexerStreamAccumulateDualDataSet ::
  "accumulate \<Rightarrow> (DataRow list list, ref list, 'c) StreamDataSetCallbacks \<Rightarrow> AccumulatorOptions
     \<Rightarrow> StreamOptions \<Rightarrow> URL \<Rightarrow> bool \<Rightarrow> 'c \<Rightarrow> 'c DualDataSet IndexerStream" where
  "IndexerStreamAccumulateDualDataSet acc callbacks aopts sopts endpoint eventSource_throws c =
     IndexerStream (dual_callbacks acc callbacks aopts)
       \<lparr>abortController = abortController sopts, disableSSE = disableSSE sopts,
        backoffFunc = None\<rparr>
       endpoint eventSource_throws
       \<lparr>store = [Map.empty, Map.empty], dataHeight = Fin 0, client = c, dataSets = [0, 1]\<rparr>"

text \<open>
  A consumer of an accumulating stream that records the calls of its callbacks, with the
  contents that the \<^verbatim>\<open>Map\<close>s it is handed have at the time of the call (\<open>read\<close> looks them
  up in the store).
\<close>

datatype ('u, 'x) client_notice =
  Updated 'u number | Accumulated 'x number | Completed 'x number | Failed error

definition client_recorder ::
  "(heap \<Rightarrow> 'd \<Rightarrow> 'x) \<Rightarrow> ('u, 'd, ('u, 'x) client_notice list) StreamDataSetCallbacks" where
  "client_recorder read =
     \<lparr>StreamDataSetCallbacks.onUpdate =
        Some (\<lambda>dataUpdates height trace. Returns (trace @ [Updated dataUpdates height])),
      StreamDataSetCallbacks.onCompleted =
        Some (\<lambda>h d height trace. Returns (trace @ [Completed (read h d) height])),
      onAccumulated =
        Some (\<lambda>h d height trace. Returns (trace @ [Accumulated (read h d) height])),
      StreamDataSetCallbacks.onError = Some (\<lambda>e trace. Returns (trace @ [Failed e]))\<rparr>"

definition read_one :: "heap \<Rightarrow> ref \<Rightarrow> DataSet" where
  "read_one h m = h ! m"

definition read_all :: "heap \<Rightarrow> ref list \<Rightarrow> DataSet list" where
  "read_all h ms = map (\<lambda>m. h ! m) ms"

text \<open>
  The heights that the endpoint reports in a sequence of deliveries: the one of each
  \<^verbatim>\<open>update\<close> event that carries rows, and \<^verbatim>\<open>Number(range?.to_height)\<close> of each response of
  status 200.
\<close>

fun reported_heights :: "'row event list \<Rightarrow> number list" where
  "reported_heights [] = []"
| "reported_heights (SseUpdate (Rows dataUpdates) n # evs) = n # reported_heights evs"
| "reported_heights (FetchResponse status page # evs) =
     (if status = 200
      then [case block_range page of None \<Rightarrow> NaN | Some r \<Rightarrow> to_height r] else [])
     @ reported_heights evs"
| "reported_heights (_ # evs) = reported_heights evs"

text \<open>The delays of the timers among the effects, and the completions that a consumer saw.\<close>

fun timers :: "effect list \<Rightarrow> number list" where
  "timers [] = []"
| "timers (SetTimeout ms # effs) = ms # timers effs"
| "timers (_ # effs) = timers effs"

fun completions :: "('u, 'x) client_notice list \<Rightarrow> ('x \<times> number) list" where
  "completions [] = []"
| "completions (Completed x height # trace) = (x, height) # completions trace"
| "completions (_ # trace) = completions trace"

text \<open>
  The page sequence \<^verbatim>\<open>[{data:[r1], next_key:"a"}, {data:[r2], next_key:null}]\<close>, each page
  with whatever \<^verbatim>\<open>block_range\<close>, delivered with status 200.
\<close>

definition two_pages ::
  "'row \<Rightarrow> BlockRange option \<Rightarrow> 'row \<Rightarrow> BlockRange option \<Rightarrow> 'row event list" where
  "two_pages r1 range1 r2 range2 =
     [FetchResponse 200
        \<lparr>data = Some [r1], pagination = Some \<lparr>next_key = Some ''a''\<rparr>, block_range = range1\<rparr>,
      FetchResponse 200
        \<lparr>data = Some [r2], pagination = Some \<lparr>next_key = None\<rparr>, block_range = range2\<rparr>]"

text \<open>Inputs used in the examples below.\<close>

definition capped :: URL where
  "capped = \<lparr>pagination_before = Some ''1700000000'', pagination_key = None,
             block_range_from_height = None, block_range_to_height = None\<rparr>"

definition pull_only :: StreamOptions where
  "pull_only = \<lparr>abortController = None, disableSSE = True, backoffFunc = None\<rparr>"

definition live_tail :: URL where
  "live_tail = \<lparr>pagination_before = None, pagination_key = None,
                block_range_from_height = None, block_range_to_height = None\<rparr>"

definition no_body :: "'row IndexerPage" where
  "no_body = \<lparr>data = None, pagination = None, block_range = None\<rparr>"

section \<open>Results on the accumulation functions\<close>

lemma accumulate_contents:
  "accumulateUpdatesUsingMutation h m us opts =
     (h[m := merged (mapEntryRemovalValue opts) (h ! m) us], m)"
proof (induction us arbitrary: h)
  case Nil
  show ?case by simp
next
  case (Cons u us)
  obtain k d where u: "u = (k, d)" by (cases u)
  show ?case
  proof (cases "m < length h")
    case True
    then show ?thesis
      by (simp add: u Cons.IH Map_set_def Map_delete_def)
  next
    case False
    then have "h[m := x] = h" for x
      by (simp add: list_update_beyond)
    then show ?thesis
      by (simp add: u Cons.IH Map_set_def Map_delete_def)
  qed
qed

lemma merged_append:
  "merged s m (us @ vs) = merged s (merged s m us) vs"
  by (induction us arbitrary: m) auto

lemma merged_lookup:
  "merged s m us k =
     (case map_of (rev us) k of
        None \<Rightarrow> m k
      | Some d \<Rightarrow> if strict_equals s d then None else Some d)"
proof (induction us arbitrary: m)
  case Nil
  show ?case by simp
next
  case (Cons u us)
  obtain k' d' where u: "u = (k', d')" by (cases u)
  show ?case
    by (simp add: u Cons.IH map_add_def split: option.splits)
qed

lemma merged_idem: "merged s (merged s m us) us = merged s m us"
  by (rule ext) (simp add: merged_lookup split: option.splits)

lemma accumulateUpdates_contents:
  "accumulateUpdates h r us opts =
     (h @ [merged (mapEntryRemovalValue opts) (h ! r) us], length h)"
  by (simp add: accumulateUpdates_def Map_new_def accumulate_contents)

text \<open>
  Claim C1. The merge goes through the batch in the order given: with no update the map is
  as it was, and a batch that ends in \<open>(k, d)\<close> leaves what the batch without that pair
  leaves, with \<open>k\<close> removed when the sentinel is defined and \<^verbatim>\<open>===\<close> to \<open>d\<close> (that is,
  when the sentinel is \<^verbatim>\<open>0\<close> and so is \<open>d\<close>), and with \<open>k\<close> mapped to \<open>d\<close> otherwise.
  With the sentinel 0, merging \<open>[(k, 0)]\<close> removes \<open>k\<close>, and changes nothing when \<open>k\<close> is
  not in the map.
\<close>

theorem merge_in_order:
  assumes "m < length h"
  shows "accumulateUpdatesUsingMutation h m [] opts = (h, m)
       \<and> snd (accumulateUpdatesUsingMutation h m (us @ [(k, d)]) opts) = m
       \<and> fst (accumulateUpdatesUsingMutation h m (us @ [(k, d)]) opts) ! m =
           (if strict_equals (mapEntryRemovalValue opts) d
            then (fst (accumulateUpdatesUsingMutation h m us opts) ! m)(k := None)
            else (fst (accumulateUpdatesUsingMutation h m us opts) ! m)(k \<mapsto> d))
       \<and> strict_equals (Some Zero) d = (d = One (Num (Fin 0)))
       \<and> strict_equals None d = False
       \<and> fst (accumulateUpdatesUsingMutation h m [(k, One (Num (Fin 0)))]
               \<lparr>mapEntryRemovalValue = Some Zero\<rparr>) ! m = (h ! m)(k := None)
       \<and> (k \<notin> dom (h ! m) \<longrightarrow>
            accumulateUpdatesUsingMutation h m [(k, One (Num (Fin 0)))]
              \<lparr>mapEntryRemovalValue = Some Zero\<rparr> = (h, m))"
proof -
  have eq: "strict_equals (Some Zero) d = (d = One (Num (Fin 0)))"
    by (induction "Some Zero" d rule: strict_equals.induct) auto
  have noop: "k \<notin> dom (h ! m) \<longrightarrow> h[m := (h ! m)(k := None)] = h"
    by (simp add: domIff fun_upd_idem)
  from assms eq noop show ?thesis
    by (simp add: accumulate_contents merged_append Map_delete_def)
qed

theorem merge_in_order_witness:
  "(0::nat) < length [Map.empty :: DataSet]
   \<and> Num (Fin 7) \<notin> dom ([Map.empty :: DataSet] ! 0)
   \<and> strict_equals (Some Zero) (One (Num (Fin 0)))
   \<and> accumulateUpdatesUsingMutation [Map.empty] 0 [(Num (Fin 7), One (Num (Fin 0)))]
        \<lparr>mapEntryRemovalValue = Some Zero\<rparr> = ([Map.empty], 0)"
  using merge_in_order [where h = "[Map.empty]" and m = 0 and us = "[]" and k = "Num (Fin 7)"
      and d = "One (Num (Fin 0))"
      and opts = "\<lparr>mapEntryRemovalValue = Some Zero\<rparr>"]
  by simp

text \<open>
  Claim C7. The copying merge returns a new \<^verbatim>\<open>Map\<close>, which holds the merged contents,
  and leaves the one it was given, like every other object of the store, as it was.
\<close>

theorem copying_merge_frame:
  assumes "currentMap < length h"
    and "accumulateUpdates h currentMap us opts = (h', newMap)"
  shows "newMap \<noteq> currentMap \<and> newMap = length h \<and> take (length h) h' = h
       \<and> h' ! currentMap = h ! currentMap
       \<and> h' ! newMap = merged (mapEntryRemovalValue opts) (h ! currentMap) us"
  using assms by (auto simp: accumulateUpdates_contents nth_append)

theorem copying_merge_frame_witness:
  "(0::nat) < length [[Num (Fin 1) \<mapsto> One (Str ''x'')]]
   \<and> accumulateUpdates [[Num (Fin 1) \<mapsto> One (Str ''x'')]] 0 [(Num (Fin 1), One (Num (Fin 0)))]
        \<lparr>mapEntryRemovalValue = Some Zero\<rparr>
      = ([[Num (Fin 1) \<mapsto> One (Str ''x'')], Map.empty], 1)
   \<and> ([[Num (Fin 1) \<mapsto> One (Str ''x'')], Map.empty] :: heap) ! 0 = [Num (Fin 1) \<mapsto> One (Str ''x'')]"
proof -
  have run: "accumulateUpdates [[Num (Fin 1) \<mapsto> One (Str ''x'')]] 0
        [(Num (Fin 1), One (Num (Fin 0)))] \<lparr>mapEntryRemovalValue = Some Zero\<rparr>
      = ([[Num (Fin 1) \<mapsto> One (Str ''x'')], Map.empty], 1)"
    by (simp add: accumulateUpdates_def Map_new_def Map_delete_def)
  have valid: "(0::nat) < length [[Num (Fin 1) \<mapsto> One (Str ''x'')]]" by simp
  from copying_merge_frame [OF valid run] valid run show ?thesis by simp
qed

text \<open>
  Claim C8. Merging the same batch a second time changes nothing: the mutating merge
  leaves the store that the first merge left, and the copying merge returns a \<^verbatim>\<open>Map\<close> with
  the contents of the one that the first merge returned.
\<close>

theorem merge_idempotent:
  assumes "m < length h"
  shows "accumulateUpdatesUsingMutation (fst (accumulateUpdatesUsingMutation h m us opts))
           (snd (accumulateUpdatesUsingMutation h m us opts)) us opts
         = accumulateUpdatesUsingMutation h m us opts
       \<and> (case accumulateUpdates h m us opts of (h1, m1) \<Rightarrow>
            case accumulateUpdates h1 m1 us opts of (h2, m2) \<Rightarrow> h2 ! m2 = h1 ! m1)"
  using assms by (simp add: accumulate_contents accumulateUpdates_contents merged_idem nth_append)


theorem merge_idempotent_witness:
  "(0::nat) < length [Map.empty :: DataSet]
   \<and> accumulateUpdatesUsingMutation
        [[Num (Fin 1) \<mapsto> One (Str ''x'')]] 0 [(Num (Fin 1), One (Str ''x''))]
        \<lparr>mapEntryRemovalValue = None\<rparr>
     = accumulateUpdatesUsingMutation [Map.empty] 0 [(Num (Fin 1), One (Str ''x''))]
        \<lparr>mapEntryRemovalValue = None\<rparr>"
  using merge_idempotent [where h = "[Map.empty]" and m = 0
      and us = "[(Num (Fin 1), One (Str ''x''))]" and opts = "\<lparr>mapEntryRemovalValue = None\<rparr>"]
  by (simp add: Map_set_def)

section \<open>Results on the stream\<close>

lemmas polling_defs = fetch_next_def fetch_resolved_def loop_conditions_def
  long_polling_rejected_def optional_call_def

lemma fetch_next_knownHeight:
  "polling (fetch_next cb L st) = Some L' \<Longrightarrow> L' = L"
  by (auto simp: fetch_next_def long_polling_rejected_def Let_def split: if_splits)

lemma loop_conditions_knownHeight:
  "polling (loop_conditions cb L st) = Some L' \<Longrightarrow> knownHeight L' = knownHeight L"
  by (auto simp: loop_conditions_def long_polling_rejected_def
      dest!: fetch_next_knownHeight split: if_splits outcome.splits)

lemma update_heights_append [simp]:
  "update_heights (xs @ ys) = update_heights xs @ update_heights ys"
  by (induction xs rule: update_heights.induct) auto

lemma world_fetch_next:
  "world (fetch_next recorder L st) = world st \<or>
   (\<exists>e. world (fetch_next recorder L st) = world st @ [Fail e])"
  by (simp add: fetch_next_def long_polling_rejected_def optional_call_def recorder_def Let_def)

lemma world_loop_conditions:
  "\<exists>ns. world (loop_conditions recorder L st) = world st @ ns \<and> update_heights ns = []"
  using world_fetch_next [of L st]
    world_fetch_next [of "L\<lparr>retries := 0, nextKey := None\<rparr>" "st\<lparr>passes := passes st + 1\<rparr>"]
  by (auto simp: loop_conditions_def long_polling_rejected_def optional_call_def recorder_def)


lemma world_long_polling_rejected:
  "world (long_polling_rejected recorder e st)
     = world st @ [Fail (Error ''Long-Polling Error'' (Some e))]"
  by (simp add: long_polling_rejected_def optional_call_def recorder_def)

lemma world_subscribeToLongPolling:
  "\<exists>ns. world (subscribeToLongPolling recorder st) = world st @ ns \<and> update_heights ns = []"
  using world_fetch_next [of "\<lparr>knownHeight = Fin 0,
        toHeight =
          (if truthy_string (pagination_before (url st)) then Fin 0
           else (let n = (case block_range_to_height (url st) of None \<Rightarrow> Fin 0 | Some n \<Rightarrow> n)
                 in if truthy_number n then n else PosInfinity)),
        retries = 0,
        nextKey = None\<rparr>" "st\<lparr>passes := passes st + 1\<rparr>"]
  by (auto simp: subscribeToLongPolling_def)

lemma world_sse_reject:
  "\<exists>ns. world (sse_reject recorder st) = world st @ ns \<and> update_heights ns = []"
  using world_subscribeToLongPolling [of "st\<lparr>settled := True\<rparr>"]
  by (auto simp: sse_reject_def)

lemma world_fetch_resolved:
  "\<exists>ns. world (fetch_resolved recorder status page L st) = world st @ ns
        \<and> update_heights ns = reported_heights [FetchResponse status page]"
proof (cases "status = 200")
  case True
  let ?rows = "case data page of None \<Rightarrow> [] | Some rows \<Rightarrow> rows"
  let ?h = "case block_range page of None \<Rightarrow> NaN | Some r \<Rightarrow> to_height r"
  obtain L' where eq: "fetch_resolved recorder status page L st
      = loop_conditions recorder L' (st\<lparr>world := world st @ [Update ?rows ?h]\<rparr>)"
    using True by (simp add: fetch_resolved_def Let_def optional_call_def recorder_def)
  obtain ns where "world (loop_conditions recorder L' (st\<lparr>world := world st @ [Update ?rows ?h]\<rparr>))
      = (world st @ [Update ?rows ?h]) @ ns" "update_heights ns = []"
    using world_loop_conditions [of L' "st\<lparr>world := world st @ [Update ?rows ?h]\<rparr>"] by auto
  then have "world (fetch_resolved recorder status page L st) = world st @ (Update ?rows ?h # ns)
      \<and> update_heights (Update ?rows ?h # ns) = reported_heights [FetchResponse status page]"
    using True eq by simp
  then show ?thesis by blast
next
  case False
  show ?thesis
  proof (cases "retries L < maxRetries")
    case True
    then show ?thesis
      using \<open>status \<noteq> 200\<close>
        world_loop_conditions [of "L\<lparr>retries := retries L + 1\<rparr>"
          "st\<lparr>effects := effects st @ [SetTimeout (this_backoffFunc st (retries L))]\<rparr>"]
      by (auto simp: fetch_resolved_def)
  next
    case False
    then show ?thesis
      using \<open>status \<noteq> 200\<close> by (simp add: fetch_resolved_def world_long_polling_rejected)
  qed
qed

lemma world_step:
  "\<exists>ns. world (step recorder st ev) = world st @ ns
        \<and> (update_heights ns = [] \<or> update_heights ns = reported_heights [ev])"
proof (cases ev)
  case (SseUpdate d n)
  show ?thesis
  proof (cases d)
    case Unparsable
    then show ?thesis
      using SseUpdate world_sse_reject [of st] by (auto simp: update_listener_def)
  next
    case (Rows rows)
    then show ?thesis
      using SseUpdate by (simp add: update_listener_def optional_call_def recorder_def)
  qed (use SseUpdate in \<open>simp_all add: update_listener_def\<close>)
next
  case SseEnd
  then show ?thesis
    by (simp add: end_listener_def sse_resolve_def optional_call_def recorder_def)
next
  case SseError
  let ?st = "st\<lparr>world := world st @ [Fail (Error ''SSE error'' (Some (Error ''error'' None)))]\<rparr>"
  obtain ns where "world (sse_reject recorder ?st) = world ?st @ ns" "update_heights ns = []"
    using world_sse_reject [of ?st] by auto
  then show ?thesis
    using SseError by (simp add: error_listener_def optional_call_def recorder_def)
next
  case (FetchResponse status page)
  show ?thesis
  proof (cases "polling st")
    case None
    then show ?thesis using FetchResponse by simp
  next
    case (Some L)
    then show ?thesis
      using FetchResponse world_fetch_resolved [of status page L st] by auto
  qed
next
  case (FetchFailure e)
  then show ?thesis
    by (cases "polling st") (simp_all add: world_long_polling_rejected)
next
  case Unsubscribe
  then show ?thesis
    by (cases "polling st") (simp_all add: unsubscribe_def world_long_polling_rejected)
qed

lemma reported_heights_Cons:
  "reported_heights (ev # evs) = reported_heights [ev] @ reported_heights evs"
  by (induction "ev # evs" rule: reported_heights.induct) auto

lemma world_run:
  "\<exists>ns. world (run recorder st evs) = world st @ ns
        \<and> subseq (update_heights ns) (reported_heights evs)"
proof (induction evs arbitrary: st)
  case Nil
  show ?case by (simp add: run_def)
next
  case (Cons ev evs)
  obtain ns1 where 1: "world (step recorder st ev) = world st @ ns1"
    "update_heights ns1 = [] \<or> update_heights ns1 = reported_heights [ev]"
    using world_step [of st ev] by auto
  obtain ns2 where 2: "world (run recorder (step recorder st ev) evs)
      = world (step recorder st ev) @ ns2"
    "subseq (update_heights ns2) (reported_heights evs)"
    using Cons.IH [of "step recorder st ev"] by auto
  have "subseq (update_heights ns1) (reported_heights [ev])"
    using 1(2) by auto
  then have "subseq (update_heights (ns1 @ ns2)) (reported_heights (ev # evs))"
    using 2(2) by (subst reported_heights_Cons) (simp add: list_emb_append_mono)
  moreover have "world (run recorder st (ev # evs)) = world st @ ns1 @ ns2"
    using 1(1) 2(1) by (simp add: run_def)
  ultimately show ?case by blast
qed

lemma sorted_wrt_subseq:
  "subseq xs ys \<Longrightarrow> sorted_wrt P ys \<Longrightarrow> sorted_wrt P xs"
proof (induction rule: list_emb.induct)
  case (list_emb_Cons xs ys y)
  then show ?case by simp
next
  case (list_emb_Cons2 x y xs ys)
  then show ?case
    using list_emb_set [of "(=)" xs ys] by auto
qed simp

lemma world_IndexerStream:
  "\<exists>ns. world (IndexerStream recorder opts u es w) = w @ ns \<and> update_heights ns = []"
proof -
  let ?st = "\<lparr>signal_aborted = (case abortController opts of None \<Rightarrow> False | Some c \<Rightarrow> aborted c),
                this_backoffFunc =
                  (case backoffFunc opts of
                     None \<Rightarrow> (\<lambda>retries. Fin (real retries * 1000))
                   | Some f \<Rightarrow> f),
                url = u, listening = False, settled = False, polling = None,
                passes = 0, effects = [], world = w\<rparr>"
  show ?thesis
    using world_subscribeToLongPolling [of ?st] world_sse_reject [of ?st]
    by (auto simp: IndexerStream_def subscribeToSSE_def Let_def)
qed

text \<open>
  Claim C3, as amended. The heights passed to \<^verbatim>\<open>onUpdate\<close> are heights that the endpoint
  reported, in the order in which it reported them and unchanged; so they do not decrease
  whenever the heights that the endpoint reports do not decrease.
\<close>

theorem delivered_heights_are_reported:
  "subseq (update_heights (world (run recorder (IndexerStream recorder opts u es []) evs)))
     (reported_heights evs)
   \<and> (sorted_wrt js_le (reported_heights evs) \<longrightarrow>
        sorted_wrt js_le
          (update_heights (world (run recorder (IndexerStream recorder opts u es []) evs))))"
  (is "subseq (update_heights (world (run recorder ?S evs))) _ \<and> _")
proof -
  obtain ns0 where 0: "world ?S = [] @ ns0" "update_heights ns0 = []"
    using world_IndexerStream [of opts u es "[]"] by blast
  obtain ns where 1: "world (run recorder ?S evs) = world ?S @ ns"
    "subseq (update_heights ns) (reported_heights evs)"
    using world_run [of ?S evs] by blast
  have "subseq (update_heights (world (run recorder ?S evs))) (reported_heights evs)"
    using 0 1 by simp
  then show ?thesis
    using sorted_wrt_subseq by blast
qed

text \<open>
  Claim C3 as stated fails: in pull mode, a page that reports the height 10 followed by a
  page that reports the height 5 is delivered as the heights 10 and then 5.
\<close>

theorem heights_counterexample:
  "\<not> sorted_wrt js_le
       (update_heights (world (run recorder (IndexerStream recorder pull_only capped False [])
          (two_pages (1::nat) (Some \<lparr>from_height = Fin 0, to_height = Fin 10\<rparr>)
                     2 (Some \<lparr>from_height = Fin 0, to_height = Fin 5\<rparr>)))))"
  by (simp add: run_def IndexerStream_def subscribeToLongPolling_def polling_defs two_pages_def
      pull_only_def capped_def recorder_def truthy_number_def js_gt_def js_le_def Let_def)

theorem delivered_heights_are_reported_witness:
  "sorted_wrt js_le (reported_heights
          (two_pages (1::nat) (Some \<lparr>from_height = Fin 0, to_height = Fin 5\<rparr>)
                     2 (Some \<lparr>from_height = Fin 0, to_height = Fin 10\<rparr>)))
   \<and> sorted_wrt js_le
       (update_heights (world (run recorder (IndexerStream recorder pull_only capped False [])
          (two_pages (1::nat) (Some \<lparr>from_height = Fin 0, to_height = Fin 5\<rparr>)
                     2 (Some \<lparr>from_height = Fin 0, to_height = Fin 10\<rparr>)))))"
proof -
  have "sorted_wrt js_le (reported_heights
          (two_pages (1::nat) (Some \<lparr>from_height = Fin 0, to_height = Fin 5\<rparr>)
                     2 (Some \<lparr>from_height = Fin 0, to_height = Fin 10\<rparr>)))"
    by (simp add: two_pages_def js_le_def)
  then show ?thesis
    using delivered_heights_are_reported [of pull_only capped False
        "two_pages (1::nat) (Some \<lparr>from_height = Fin 0, to_height = Fin 5\<rparr>)
                     2 (Some \<lparr>from_height = Fin 0, to_height = Fin 10\<rparr>)"]
    by blast
qed

lemma fetch_resolved_no_range:
  assumes "block_range page = None"
  shows "fetch_resolved cb 200 page L st =
           (case optional_call
                   (map_option (\<lambda>f. f (case data page of None \<Rightarrow> [] | Some rows \<Rightarrow> rows) NaN)
                      (StreamCallbacks.onUpdate cb))
                   (world st) of
              Throws e w \<Rightarrow> long_polling_rejected cb e (st\<lparr>world := w\<rparr>)
            | Returns w \<Rightarrow>
                loop_conditions cb
                  (L\<lparr>nextKey :=
                       (case pagination page of
                          None \<Rightarrow> None
                        | Some p \<Rightarrow> if truthy_string (next_key p) then next_key p else None)\<rparr>)
                  (st\<lparr>world := w\<rparr>))"
  using assms by (simp add: fetch_resolved_def Let_def split: outcome.splits option.splits)

text \<open>
  Claim C10. When a response of status 200 has no \<^verbatim>\<open>block_range\<close>, \<^verbatim>\<open>onUpdate\<close> is called
  with the rows of the page (none if \<^verbatim>\<open>data\<close> is absent) and the height \<^verbatim>\<open>NaN\<close>, and the
  loop goes on with its locals as they were but for \<^verbatim>\<open>nextKey\<close>: the known height, which
  the next requests are made from, is the one before the response. The recording consumer
  sees exactly one update, of these rows at \<^verbatim>\<open>NaN\<close>.
\<close>

theorem missing_block_range:
  assumes "polling st = Some L" and "polling stR = Some LR" and "block_range page = None"
  shows "step cb st (FetchResponse 200 page) =
           (case optional_call
                   (map_option (\<lambda>f. f (case data page of None \<Rightarrow> [] | Some rows \<Rightarrow> rows) NaN)
                      (StreamCallbacks.onUpdate cb))
                   (world st) of
              Throws e w \<Rightarrow> long_polling_rejected cb e (st\<lparr>world := w\<rparr>)
            | Returns w \<Rightarrow>
                loop_conditions cb
                  (L\<lparr>nextKey :=
                       (case pagination page of
                          None \<Rightarrow> None
                        | Some p \<Rightarrow> if truthy_string (next_key p) then next_key p else None)\<rparr>)
                  (st\<lparr>world := w\<rparr>))
       \<and> (\<forall>L'. polling (step cb st (FetchResponse 200 page)) = Some L'
              \<longrightarrow> knownHeight L' = knownHeight L)
       \<and> (\<exists>ns. world (step recorder stR (FetchResponse 200 page)) =
                 world stR @ Update (case data page of None \<Rightarrow> [] | Some rows \<Rightarrow> rows) NaN # ns
               \<and> update_heights ns = [])"
proof (intro conjI)
  show "step cb st (FetchResponse 200 page) =
           (case optional_call
                   (map_option (\<lambda>f. f (case data page of None \<Rightarrow> [] | Some rows \<Rightarrow> rows) NaN)
                      (StreamCallbacks.onUpdate cb))
                   (world st) of
              Throws e w \<Rightarrow> long_polling_rejected cb e (st\<lparr>world := w\<rparr>)
            | Returns w \<Rightarrow>
                loop_conditions cb
                  (L\<lparr>nextKey :=
                       (case pagination page of
                          None \<Rightarrow> None
                        | Some p \<Rightarrow> if truthy_string (next_key p) then next_key p else None)\<rparr>)
                  (st\<lparr>world := w\<rparr>))"
    using assms(1) fetch_resolved_no_range [OF assms(3)] by simp
next
  show "\<forall>L'. polling (step cb st (FetchResponse 200 page)) = Some L'
              \<longrightarrow> knownHeight L' = knownHeight L"
    using assms(1)
    by (auto simp: fetch_resolved_no_range [OF assms(3)] long_polling_rejected_def
        dest!: loop_conditions_knownHeight split: outcome.splits)
next
  let ?rows = "case data page of None \<Rightarrow> [] | Some rows \<Rightarrow> rows"
  let ?L = "LR\<lparr>nextKey :=
                       (case pagination page of
                          None \<Rightarrow> None
                        | Some p \<Rightarrow> if truthy_string (next_key p) then next_key p else None)\<rparr>"
  obtain ns where "world (loop_conditions recorder ?L (stR\<lparr>world := world stR @ [Update ?rows NaN]\<rparr>))
      = world stR @ [Update ?rows NaN] @ ns" "update_heights ns = []"
    using world_loop_conditions [of ?L "stR\<lparr>world := world stR @ [Update ?rows NaN]\<rparr>"] by auto
  then show "\<exists>ns. world (step recorder stR (FetchResponse 200 page)) =
                 world stR @ Update ?rows NaN # ns \<and> update_heights ns = []"
    using assms(2)
    by (simp add: fetch_resolved_no_range [OF assms(3)] optional_call_def recorder_def)
qed

theorem missing_block_range_witness:
  "polling (IndexerStream (recorder :: (nat, nat notice list) StreamCallbacks) pull_only capped False [])
     = Some \<lparr>knownHeight = Fin 0, toHeight = Fin 0, retries = 0, nextKey = None\<rparr>
   \<and> block_range (no_body :: nat IndexerPage) = None
   \<and> world (step recorder (IndexerStream recorder pull_only capped False [])
        (FetchResponse 200 (no_body :: nat IndexerPage))) = [Update [] NaN, Complete]"
proof -
  have p: "polling (IndexerStream (recorder :: (nat, nat notice list) StreamCallbacks) pull_only capped False [])
     = Some \<lparr>knownHeight = Fin 0, toHeight = Fin 0, retries = 0, nextKey = None\<rparr>"
    by (simp add: IndexerStream_def subscribeToLongPolling_def fetch_next_def pull_only_def
        capped_def truthy_number_def Let_def)
  have b: "block_range (no_body :: nat IndexerPage) = None"
    by (simp add: no_body_def)
  have w: "world (IndexerStream (recorder :: (nat, nat notice list) StreamCallbacks) pull_only capped False []) = []"
    by (simp add: IndexerStream_def subscribeToLongPolling_def fetch_next_def pull_only_def
        capped_def truthy_number_def Let_def)
  from missing_block_range [OF p p b, of recorder] p b w show ?thesis
    by (simp add: no_body_def loop_conditions_def optional_call_def recorder_def)
qed

lemma step_stopped:
  assumes "polling st = None" and "\<not> listening st"
  shows "polling (step cb st ev) = None \<and> \<not> listening (step cb st ev)
       \<and> world (step cb st ev) = world st"
  using assms by (cases ev) (simp_all add: unsubscribe_def)

lemma run_stopped:
  assumes "polling st = None" and "\<not> listening st"
  shows "world (run cb st evs) = world st"
  using assms
proof (induction evs arbitrary: st)
  case Nil
  show ?case by (simp add: run_def)
next
  case (Cons ev evs)
  from step_stopped [OF Cons.prems, of cb ev] Cons.IH [of "step cb st ev"]
  show ?case by (simp add: run_def)
qed

lemma unsubscribe_stops:
  "polling (unsubscribe cb st) = None \<and> \<not> listening (unsubscribe cb st)"
  by (cases "polling st") (simp_all add: unsubscribe_def long_polling_rejected_def)

lemma run_Cons: "run cb st (ev # evs) = run cb (step cb st ev) evs"
  by (simp add: run_def)

lemma after_cancellation:
  "world (run cb st (Unsubscribe # evs)) = world (unsubscribe cb st)"
  using unsubscribe_stops [of cb st] by (simp add: run_Cons run_stopped)

lemma cancellation_of_live_transport:
  assumes "polling st = None"
  shows "world (run cb st (Unsubscribe # evs)) = world st"
  using assms by (simp add: after_cancellation unsubscribe_def)

text \<open>
  Claim C4 does not hold of the code. In pull mode, after a cancellation that comes before
  anything else, \<^verbatim>\<open>onError\<close> is called, once, with the \<^verbatim>\<open>Long-Polling Error\<close> that the
  aborted request causes, whatever the platform delivers afterwards. (With the live
  transport nothing is called: \<open>cancellation_of_live_transport\<close>.)
\<close>

theorem cancel_reports_error:
  "world (run recorder (IndexerStream recorder pull_only u es []) (Unsubscribe # evs))
     = [Fail (Error ''Long-Polling Error'' (Some (Error ''AbortError'' None)))]"
  by (simp add: after_cancellation unsubscribe_def IndexerStream_def subscribeToLongPolling_def
      polling_defs pull_only_def recorder_def Let_def)

lemma timers_append [simp]: "timers (xs @ ys) = timers xs @ timers ys"
  by (induction xs rule: timers.induct) auto

lemma failure_restarts_pass:
  assumes "polling st = Some \<lparr>knownHeight = Fin 0, toHeight = PosInfinity, retries = 0, nextKey = None\<rparr>"
    and "\<not> signal_aborted st"
  shows "polling (step cb st (FetchResponse 500 page))
           = Some \<lparr>knownHeight = Fin 0, toHeight = PosInfinity, retries = 0, nextKey = None\<rparr>
       \<and> \<not> signal_aborted (step cb st (FetchResponse 500 page))
       \<and> world (step cb st (FetchResponse 500 page)) = world st
       \<and> passes (step cb st (FetchResponse 500 page)) = passes st + 1
       \<and> timers (effects (step cb st (FetchResponse 500 page))) = timers (effects st) @ [this_backoffFunc st 0]
       \<and> this_backoffFunc (step cb st (FetchResponse 500 page)) = this_backoffFunc st"
  using assms
  by (simp add: polling_defs maxRetries_def truthy_number_def Let_def)


lemma failures_never_exhaust:
  assumes "polling st = Some \<lparr>knownHeight = Fin 0, toHeight = PosInfinity, retries = 0, nextKey = None\<rparr>"
    and "\<not> signal_aborted st"
  shows "polling (run cb st (replicate n (FetchResponse 500 page)))
           = Some \<lparr>knownHeight = Fin 0, toHeight = PosInfinity, retries = 0, nextKey = None\<rparr>
       \<and> world (run cb st (replicate n (FetchResponse 500 page))) = world st
       \<and> passes (run cb st (replicate n (FetchResponse 500 page))) = passes st + n
       \<and> timers (effects (run cb st (replicate n (FetchResponse 500 page))))
           = timers (effects st) @ replicate n (this_backoffFunc st 0)"
  using assms
proof (induction n arbitrary: st)
  case 0
  then show ?case by (simp add: run_def)
next
  case (Suc n)
  let ?st = "step cb st (FetchResponse 500 page)"
  note one = failure_restarts_pass [OF Suc.prems, of cb page]
  then have rest: "polling (run cb ?st (replicate n (FetchResponse 500 page)))
           = Some \<lparr>knownHeight = Fin 0, toHeight = PosInfinity, retries = 0, nextKey = None\<rparr>
       \<and> world (run cb ?st (replicate n (FetchResponse 500 page))) = world ?st
       \<and> passes (run cb ?st (replicate n (FetchResponse 500 page))) = passes ?st + n
       \<and> timers (effects (run cb ?st (replicate n (FetchResponse 500 page))))
           = timers (effects ?st) @ replicate n (this_backoffFunc ?st 0)"
    using Suc.IH [of ?st] by blast
  have "run cb st (replicate (Suc n) (FetchResponse 500 page))
      = run cb ?st (replicate n (FetchResponse 500 page))"
    by (simp add: run_def)
  with one rest show ?case
    by (simp del: step.simps add: replicate_app_Cons_same)
qed

lemma live_tail_start:
  "polling (IndexerStream cb pull_only live_tail es w)
      = Some \<lparr>knownHeight = Fin 0, toHeight = PosInfinity, retries = 0, nextKey = None\<rparr>
   \<and> \<not> signal_aborted (IndexerStream cb pull_only live_tail es w)
   \<and> world (IndexerStream cb pull_only live_tail es w) = w
   \<and> timers (effects (IndexerStream cb pull_only live_tail es w)) = []
   \<and> this_backoffFunc (IndexerStream cb pull_only live_tail es w) 0 = Fin 0"
  by (simp add: IndexerStream_def subscribeToLongPolling_def fetch_next_def
      pull_only_def live_tail_def truthy_number_def Let_def)

text \<open>
  Claim C2 does not hold of the code. When the responses that fail are the first of a pass
  (no page key is pending), the \<^verbatim>\<open>continue\<close> of the retry branch leaves the inner loop, the
  pass ends and the next one starts from \<^verbatim>\<open>retries = 0\<close>. With a snapshot-time cap, six
  failing responses end in one timer of 0 ms and a completion, with no error; without a
  cap, any number \<open>n\<close> of failing responses end in \<open>n\<close> timers of 0 ms, no error and a
  request still pending.
\<close>

theorem retry_budget_not_enforced:
  "(let fin = run recorder (IndexerStream recorder pull_only capped es [])
                (replicate 6 (FetchResponse 500 no_body))
    in world fin = [Complete] \<and> timers (effects fin) = [Fin 0])
   \<and> (let fin = run recorder (IndexerStream recorder pull_only live_tail es [])
                (replicate n (FetchResponse 500 no_body))
      in world fin = [] \<and> timers (effects fin) = replicate n (Fin 0) \<and> polling fin \<noteq> None)"
proof (intro conjI)
  show "let fin = run recorder (IndexerStream recorder pull_only capped es [])
                (replicate 6 (FetchResponse 500 no_body))
    in world fin = [Complete] \<and> timers (effects fin) = [Fin 0]"
    by (simp add: run_def IndexerStream_def subscribeToLongPolling_def polling_defs
      pull_only_def capped_def recorder_def maxRetries_def truthy_number_def
      numeral_eq_Suc Let_def)
next
  show "let fin = run recorder (IndexerStream recorder pull_only live_tail es [])
                (replicate n (FetchResponse 500 no_body))
      in world fin = [] \<and> timers (effects fin) = replicate n (Fin 0) \<and> polling fin \<noteq> None"
    (is "let fin = run ?cb ?S (replicate n (FetchResponse 500 ?page)) in _")
  proof -
    have "polling ?S
        = Some \<lparr>knownHeight = Fin 0, toHeight = PosInfinity, retries = 0, nextKey = None\<rparr>"
      and "\<not> signal_aborted ?S"
      by (simp_all add: live_tail_start)
    from failures_never_exhaust [OF this, of ?cb n ?page]
    show ?thesis by (simp add: Let_def live_tail_start)
  qed
qed

text \<open>
  The budget is enforced while a page key is pending: after a page with a \<^verbatim>\<open>next_key\<close>, six
  failing responses end in five timers, of 0 to 4000 ms, and the error.
\<close>

lemma budget_enforced_while_paging:
  "(let fin = run recorder (IndexerStream recorder pull_only capped es [])
                (FetchResponse 200
                   \<lparr>data = Some [], pagination = Some \<lparr>next_key = Some ''a''\<rparr>,
                    block_range = None\<rparr>
                 # replicate 6 (FetchResponse 500 no_body))
    in world fin =
         [Update [] NaN,
          Fail (Error ''Long-Polling Error''
                  (Some (Error ''Could not fetch data after 5 times.'' None)))]
     \<and> timers (effects fin) = [Fin 0, Fin 1000, Fin 2000, Fin 3000, Fin 4000])"
  by (simp add: run_def IndexerStream_def subscribeToLongPolling_def polling_defs
      pull_only_def capped_def recorder_def maxRetries_def truthy_number_def
      numeral_eq_Suc Let_def)

lemmas construct_defs = IndexerStream_def subscribeToSSE_def sse_reject_def
  subscribeToLongPolling_def Let_def

lemmas client_defs = single_callbacks_def single_onUpdate_def single_accumulateDataSet_def
  dual_callbacks_def dual_onUpdate_def dual_accumulateDataSet_def
  call_client_def client_recorder_def read_one_def read_all_def

text \<open>
  Claim C5 does not hold of the code. Both accumulating streams build their stream with the
  default backoff function whatever their options say, and with a custom function that is
  constantly 7 the two retries of a page are delayed by 0 and 1000 ms.
\<close>

theorem custom_backoff_dropped:
  "this_backoffFunc (IndexerStreamAccumulateSingleDataSet acc callbacks aopts sopts u es c)
     = (\<lambda>retries. Fin (real retries * 1000))
   \<and> this_backoffFunc (IndexerStreamAccumulateDualDataSet acc callbacks' aopts sopts u es c')
     = (\<lambda>retries. Fin (real retries * 1000))
   \<and> (let fin = run (single_callbacks accumulateUpdates (client_recorder read_one) aopts)
                   (IndexerStreamAccumulateSingleDataSet accumulateUpdates
                      (client_recorder read_one) aopts
                      \<lparr>abortController = None, disableSSE = True,
                       backoffFunc = Some (\<lambda>retries. Fin 7)\<rparr>
                      capped False [])
                   [FetchResponse 200
                      \<lparr>data = Some [], pagination = Some \<lparr>next_key = Some ''a''\<rparr>,
                       block_range = None\<rparr>,
                    FetchResponse 500 no_body,
                    FetchResponse 500 no_body]
      in timers (effects fin) = [Fin 0, Fin 1000])"
proof (intro conjI)
  show "this_backoffFunc (IndexerStreamAccumulateSingleDataSet acc callbacks aopts sopts u es c)
     = (\<lambda>retries. Fin (real retries * 1000))"
    by (simp add: IndexerStreamAccumulateSingleDataSet_def construct_defs fetch_next_def
        long_polling_rejected_def)
  show "this_backoffFunc (IndexerStreamAccumulateDualDataSet acc callbacks' aopts sopts u es c')
     = (\<lambda>retries. Fin (real retries * 1000))"
    by (simp add: IndexerStreamAccumulateDualDataSet_def construct_defs fetch_next_def
        long_polling_rejected_def)
  show "let fin = run (single_callbacks accumulateUpdates (client_recorder read_one) aopts)
                   (IndexerStreamAccumulateSingleDataSet accumulateUpdates
                      (client_recorder read_one) aopts
                      \<lparr>abortController = None, disableSSE = True,
                       backoffFunc = Some (\<lambda>retries. Fin 7)\<rparr>
                      capped False [])
                   [FetchResponse 200
                      \<lparr>data = Some [], pagination = Some \<lparr>next_key = Some ''a''\<rparr>,
                       block_range = None\<rparr>,
                    FetchResponse 500 no_body,
                    FetchResponse 500 no_body]
      in timers (effects fin) = [Fin 0, Fin 1000]"
    by (simp add: run_def IndexerStreamAccumulateSingleDataSet_def construct_defs polling_defs
        client_defs accumulateUpdates_contents capped_def no_body_def maxRetries_def
        truthy_number_def)
qed


text \<open>
  Claim C9. On a batch that is a pair of row arrays, the dual stream merges the first array
  into its first data set and the second into its second (with the merge function it
  holds, copying or mutating), keeps the two in this order, takes the height of the batch,
  and hands both data sets and that height to \<^verbatim>\<open>onAccumulated\<close>. The batch
  \<^verbatim>\<open>[[(1,"x")],[(1,"y")]]\<close> at height 10, as the only page of a pull, gives the data sets
  \<^verbatim>\<open>{1:"x"}\<close> and \<^verbatim>\<open>{1:"y"}\<close> at height 10.
\<close>

theorem dual_pairing:
  assumes "dataSets st = [m0, m1]" and "m0 < length (store st)" and "m1 < length (store st)"
    and "acc = accumulateUpdates \<or> (acc = accumulateUpdatesUsingMutation \<and> m0 \<noteq> m1)"
  shows "(case dual_onUpdate acc (client_recorder read_all) opts [u0, u1] height st of
            Throws e st' \<Rightarrow> False
          | Returns st' \<Rightarrow>
              length (dataSets st') = 2
            \<and> store st' ! (dataSets st' ! 0) = merged (mapEntryRemovalValue opts) (store st ! m0) u0
            \<and> store st' ! (dataSets st' ! 1) = merged (mapEntryRemovalValue opts) (store st ! m1) u1
            \<and> dataHeight st' = height
            \<and> client st' = client st @
                 [Updated [u0, u1] height,
                  Accumulated [merged (mapEntryRemovalValue opts) (store st ! m0) u0,
                               merged (mapEntryRemovalValue opts) (store st ! m1) u1] height])
       \<and> client (world (run (dual_callbacks accumulateUpdates (client_recorder read_all) opts)
            (IndexerStreamAccumulateDualDataSet accumulateUpdates (client_recorder read_all) opts
               pull_only capped es [])
            [FetchResponse 200
               \<lparr>data = Some [[(Num (Fin 1), One (Str ''x''))], [(Num (Fin 1), One (Str ''y''))]],
                pagination = None,
                block_range = Some \<lparr>from_height = Fin 10, to_height = Fin 10\<rparr>\<rparr>]))
         = [Updated [[(Num (Fin 1), One (Str ''x''))], [(Num (Fin 1), One (Str ''y''))]] (Fin 10),
            Accumulated [[Num (Fin 1) \<mapsto> One (Str ''x'')], [Num (Fin 1) \<mapsto> One (Str ''y'')]]
              (Fin 10),
            Completed [[Num (Fin 1) \<mapsto> One (Str ''x'')], [Num (Fin 1) \<mapsto> One (Str ''y'')]]
              (Fin 10)]"
proof (intro conjI)
  from assms(4)
  show "case dual_onUpdate acc (client_recorder read_all) opts [u0, u1] height st of
            Throws e st' \<Rightarrow> False
          | Returns st' \<Rightarrow>
              length (dataSets st') = 2
            \<and> store st' ! (dataSets st' ! 0) = merged (mapEntryRemovalValue opts) (store st ! m0) u0
            \<and> store st' ! (dataSets st' ! 1) = merged (mapEntryRemovalValue opts) (store st ! m1) u1
            \<and> dataHeight st' = height
            \<and> client st' = client st @
                 [Updated [u0, u1] height,
                  Accumulated [merged (mapEntryRemovalValue opts) (store st ! m0) u0,
                               merged (mapEntryRemovalValue opts) (store st ! m1) u1] height]"
  proof
    assume "acc = accumulateUpdates"
    then show ?thesis
      using assms(1-3)
      by (simp add: client_defs optional_call_def accumulateUpdates_contents nth_append)
  next
    assume "acc = accumulateUpdatesUsingMutation \<and> m0 \<noteq> m1"
    then show ?thesis
      using assms(1-3)
      by (simp add: client_defs optional_call_def accumulate_contents)
  qed
next
  show "client (world (run (dual_callbacks accumulateUpdates (client_recorder read_all) opts)
            (IndexerStreamAccumulateDualDataSet accumulateUpdates (client_recorder read_all) opts
               pull_only capped es [])
            [FetchResponse 200
               \<lparr>data = Some [[(Num (Fin 1), One (Str ''x''))], [(Num (Fin 1), One (Str ''y''))]],
                pagination = None,
                block_range = Some \<lparr>from_height = Fin 10, to_height = Fin 10\<rparr>\<rparr>]))
         = [Updated [[(Num (Fin 1), One (Str ''x''))], [(Num (Fin 1), One (Str ''y''))]] (Fin 10),
            Accumulated [[Num (Fin 1) \<mapsto> One (Str ''x'')], [Num (Fin 1) \<mapsto> One (Str ''y'')]]
              (Fin 10),
            Completed [[Num (Fin 1) \<mapsto> One (Str ''x'')], [Num (Fin 1) \<mapsto> One (Str ''y'')]]
              (Fin 10)]"
    by (simp add: run_def IndexerStreamAccumulateDualDataSet_def construct_defs polling_defs
        client_defs accumulateUpdates_contents capped_def pull_only_def
        truthy_number_def js_gt_def)
qed

theorem dual_pairing_witness:
  "dataSets \<lparr>store = [Map.empty, Map.empty], dataHeight = Fin 0, client = [], dataSets = [0, 1]\<rparr>
     = [0, 1]
   \<and> (0::nat) < length [Map.empty :: DataSet, Map.empty]
   \<and> (1::nat) < length [Map.empty :: DataSet, Map.empty]
   \<and> dual_onUpdate accumulateUpdates (client_recorder read_all)
        \<lparr>mapEntryRemovalValue = Some Zero\<rparr>
        [[(Num (Fin 1), One (Str ''x''))], [(Num (Fin 1), One (Str ''y''))]] (Fin 10)
        \<lparr>store = [Map.empty, Map.empty], dataHeight = Fin 0, client = [], dataSets = [0, 1]\<rparr>
     = Returns
        \<lparr>store = [Map.empty, Map.empty, [Num (Fin 1) \<mapsto> One (Str ''x'')],
                  [Num (Fin 1) \<mapsto> One (Str ''y'')]],
         dataHeight = Fin 10,
         client =
           [Updated [[(Num (Fin 1), One (Str ''x''))], [(Num (Fin 1), One (Str ''y''))]] (Fin 10),
            Accumulated [[Num (Fin 1) \<mapsto> One (Str ''x'')], [Num (Fin 1) \<mapsto> One (Str ''y'')]]
              (Fin 10)],
         dataSets = [2, 3]\<rparr>"
proof -
  let ?st = "\<lparr>store = [Map.empty, Map.empty], dataHeight = Fin 0,
              client = ([] :: (DataRow list list, DataSet list) client_notice list),
              dataSets = [0, 1]\<rparr>"
  have a: "dataSets ?st = [0, 1]" "0 < length (store ?st)" "1 < length (store ?st)"
    "accumulateUpdates = accumulateUpdates \<or>
       (accumulateUpdates = accumulateUpdatesUsingMutation \<and> (0::nat) \<noteq> 1)"
    by simp_all
  have run: "dual_onUpdate accumulateUpdates (client_recorder read_all)
        \<lparr>mapEntryRemovalValue = Some Zero\<rparr>
        [[(Num (Fin 1), One (Str ''x''))], [(Num (Fin 1), One (Str ''y''))]] (Fin 10) ?st
     = Returns
        \<lparr>store = [Map.empty, Map.empty, [Num (Fin 1) \<mapsto> One (Str ''x'')],
                  [Num (Fin 1) \<mapsto> One (Str ''y'')]],
         dataHeight = Fin 10,
         client =
           [Updated [[(Num (Fin 1), One (Str ''x''))], [(Num (Fin 1), One (Str ''y''))]] (Fin 10),
            Accumulated [[Num (Fin 1) \<mapsto> One (Str ''x'')], [Num (Fin 1) \<mapsto> One (Str ''y'')]]
              (Fin 10)],
         dataSets = [2, 3]\<rparr>"
    by (simp add: client_defs optional_call_def accumulateUpdates_contents)
  from dual_pairing [OF a, of "\<lparr>mapEntryRemovalValue = Some Zero\<rparr>"
      "[(Num (Fin 1), One (Str ''x''))]" "[(Num (Fin 1), One (Str ''y''))]" "Fin 10"] run
  show ?thesis by simp
qed


lemma js_lt_after_gt:
  "js_lt k h \<Longrightarrow> \<not> js_lt k z \<Longrightarrow> \<not> js_lt h z"
  by (cases k; cases h; cases z) auto

lemma knownHeight_not_below:
  assumes "\<not> js_lt k z"
  shows "\<not> js_lt (case rng of None \<Rightarrow> k
                  | Some r \<Rightarrow> if js_gt (to_height r) k then to_height r else k) z"
  using assms js_lt_after_gt [of k _ z] by (auto simp: js_gt_def split: option.splits)

text \<open>
  Claim C6, as amended. In pull mode with a snapshot-time cap, when neither row's value is
  the removal sentinel, the two pages leave a final data set that holds exactly the two
  rows, the body of the outer loop is entered once, no request is left pending, and the
  consumer sees one completion, with that data set.
\<close>

theorem two_pages_one_pass:
  assumes "disableSSE sopts"
    and "\<not> (case abortController sopts of None \<Rightarrow> False | Some c \<Rightarrow> aborted c)"
    and "truthy_string (pagination_before u)"
    and "\<not> strict_equals (mapEntryRemovalValue aopts) d1"
    and "\<not> strict_equals (mapEntryRemovalValue aopts) d2"
    and "acc = accumulateUpdates \<or> acc = accumulateUpdatesUsingMutation"
  shows "let fin = run (single_callbacks acc (client_recorder read_one) aopts)
                     (IndexerStreamAccumulateSingleDataSet acc (client_recorder read_one) aopts
                        sopts u es [])
                     (two_pages (k1, d1) range1 (k2, d2) range2);
             snapshot = store (world fin) ! dataSet (world fin)
         in k1 \<in> dom snapshot \<and> k2 \<in> dom snapshot
          \<and> snapshot = [k1 \<mapsto> d1, k2 \<mapsto> d2]
          \<and> passes fin = 1
          \<and> polling fin = None
          \<and> completions (client (world fin)) =
               [(snapshot, case range2 of None \<Rightarrow> NaN | Some r \<Rightarrow> to_height r)]"
proof -
  have z: "\<not> js_lt (Fin 0) (Fin 0)" by simp
  note kh = knownHeight_not_below [OF knownHeight_not_below [OF z]]
  from assms(6) show ?thesis
  proof
    assume "acc = accumulateUpdates"
    then show ?thesis
      using assms(1-5) kh
      by (simp add: run_def two_pages_def IndexerStreamAccumulateSingleDataSet_def construct_defs
          polling_defs client_defs accumulateUpdates_contents truthy_number_def
          cong: option.case_cong if_cong)
  next
    assume "acc = accumulateUpdatesUsingMutation"
    then show ?thesis
      using assms(1-5) kh
      by (simp add: run_def two_pages_def IndexerStreamAccumulateSingleDataSet_def construct_defs
          polling_defs client_defs accumulate_contents truthy_number_def
          cong: option.case_cong if_cong)
  qed
qed


theorem two_pages_one_pass_witness:
  "disableSSE pull_only
   \<and> \<not> (case abortController pull_only of None \<Rightarrow> False | Some c \<Rightarrow> aborted c)
   \<and> truthy_string (pagination_before capped)
   \<and> \<not> strict_equals (mapEntryRemovalValue \<lparr>mapEntryRemovalValue = Some Zero\<rparr>) (One (Str ''x''))
   \<and> \<not> strict_equals (mapEntryRemovalValue \<lparr>mapEntryRemovalValue = Some Zero\<rparr>) (One (Num (Fin 5)))
   \<and> store (world (run (single_callbacks accumulateUpdates (client_recorder read_one)
                           \<lparr>mapEntryRemovalValue = Some Zero\<rparr>)
                (IndexerStreamAccumulateSingleDataSet accumulateUpdates (client_recorder read_one)
                   \<lparr>mapEntryRemovalValue = Some Zero\<rparr> pull_only capped False [])
                (two_pages (Num (Fin 1), One (Str ''x'')) None (Num (Fin 2), One (Num (Fin 5))) None)))
       ! dataSet (world (run (single_callbacks accumulateUpdates (client_recorder read_one)
                           \<lparr>mapEntryRemovalValue = Some Zero\<rparr>)
                (IndexerStreamAccumulateSingleDataSet accumulateUpdates (client_recorder read_one)
                   \<lparr>mapEntryRemovalValue = Some Zero\<rparr> pull_only capped False [])
                (two_pages (Num (Fin 1), One (Str ''x'')) None (Num (Fin 2), One (Num (Fin 5))) None)))
     = [Num (Fin 1) \<mapsto> One (Str ''x''), Num (Fin 2) \<mapsto> One (Num (Fin 5))]"
proof -
  have a: "disableSSE pull_only"
    "\<not> (case abortController pull_only of None \<Rightarrow> False | Some c \<Rightarrow> aborted c)"
    "truthy_string (pagination_before capped)"
    "\<not> strict_equals (mapEntryRemovalValue \<lparr>mapEntryRemovalValue = Some Zero\<rparr>) (One (Str ''x''))"
    "\<not> strict_equals (mapEntryRemovalValue \<lparr>mapEntryRemovalValue = Some Zero\<rparr>) (One (Num (Fin 5)))"
    "accumulateUpdates = accumulateUpdates \<or> accumulateUpdates = accumulateUpdatesUsingMutation"
    by (simp_all add: pull_only_def capped_def)
  from two_pages_one_pass [OF a, where ?k1.0 = "Num (Fin 1)" and ?range1.0 = None
      and ?k2.0 = "Num (Fin 2)" and ?range2.0 = None and es = False] a
  show ?thesis by (simp add: Let_def)
qed

text \<open>
  Claim C6 as stated fails: with the removal sentinel 0 and a first row \<open>(1, 0)\<close>, the
  final data set does not contain the id 1.
\<close>

theorem two_pages_counterexample:
  "Num (Fin 1) \<notin> dom
     (store (world (run (single_callbacks accumulateUpdates (client_recorder read_one)
                           \<lparr>mapEntryRemovalValue = Some Zero\<rparr>)
                (IndexerStreamAccumulateSingleDataSet accumulateUpdates (client_recorder read_one)
                   \<lparr>mapEntryRemovalValue = Some Zero\<rparr> pull_only capped False [])
                (two_pages (Num (Fin 1), One (Num (Fin 0))) None (Num (Fin 2), One (Str ''x'')) None)))
       ! dataSet (world (run (single_callbacks accumulateUpdates (client_recorder read_one)
                           \<lparr>mapEntryRemovalValue = Some Zero\<rparr>)
                (IndexerStreamAccumulateSingleDataSet accumulateUpdates (client_recorder read_one)
                   \<lparr>mapEntryRemovalValue = Some Zero\<rparr> pull_only capped False [])
                (two_pages (Num (Fin 1), One (Num (Fin 0))) None (Num (Fin 2), One (Str ''x'')) None))))"
  by (simp add: run_def two_pages_def IndexerStreamAccumulateSingleDataSet_def construct_defs
      polling_defs client_defs accumulateUpdates_contents truthy_number_def pull_only_def
      capped_def)

end
